theory Spec2Isabelle
  imports Main "HOL-Library.Word"
begin

section \<open>The book library API (main.go)\<close>

text \<open>
  The program is one Go file: five HTTP handlers over one SQLite table. The handlers are
  embedded as functions from the decoded request and the table to the response and the
  table afterwards. Each handler runs to its end before the next one starts: the
  interleaving of two requests is outside this model.
\<close>

subsection \<open>Data\<close>

text \<open>
  \<^verbatim>\<open>type book struct { ID, Title, Author string; Quantity int }\<close>.
  Go's \<^verbatim>\<open>int\<close> has 64 bits on the 64-bit build the file's closing comment describes;
  it is signed, so a quantity is read with \<open>sint\<close>.
\<close>

record book =
  ID :: string
  Title :: string
  Author :: string
  Quantity :: "64 word"

text \<open>
  What SQLite keeps in the column \<^verbatim>\<open>quantity INTEGER\<close>. The handlers bind a Go
  \<^verbatim>\<open>int\<close>, stored as a 64-bit signed INTEGER. SQLite's own \<^verbatim>\<open>quantity + 1\<close> and
  \<^verbatim>\<open>quantity - 1\<close> do not wrap around: when the result leaves the 64-bit range the
  value becomes a REAL, and the INTEGER column keeps it as a REAL because no 64-bit
  integer equals it. That is the only way a REAL comes into this table, so a REAL here is
  at least \<open>2 ^ 63\<close> (\<open>SqlReal_over\<close>) or at most \<open>- (2 ^ 63)\<close> (\<open>SqlReal_under\<close>).
  Floating-point numbers of that size lie more than 1 apart: adding or subtracting 1
  gives the same REAL again. No handler can read a REAL back into a Go \<^verbatim>\<open>int\<close>.
\<close>

datatype sql_value = SqlInteger "64 word" | SqlReal_over | SqlReal_under

text \<open>
  A row of \<^verbatim>\<open>books(id TEXT PRIMARY KEY, title TEXT, author TEXT, quantity INTEGER)\<close>,
  the table initDB creates. The table is the list of its rows in insertion order.
\<close>

record row =
  col_id :: string
  col_title :: string
  col_author :: string
  col_quantity :: sql_value

type_synonym books_table = "row list"

text \<open>
  The error values the handlers meet. \<open>ErrNoRows\<close> is \<^verbatim>\<open>sql.ErrNoRows\<close>;
  \<open>ErrLivroNaoEncontrado\<close> is getBookById's own \<^verbatim>\<open>errors.New("livro nao encontrado")\<close>;
  the other three are what database/sql and the driver report: a failed call, a violated
  PRIMARY KEY, a column value that Scan cannot convert.
\<close>

datatype go_error =
    ErrNoRows
  | ErrLivroNaoEncontrado
  | ErrStorage
  | ErrConstraint
  | ErrConversion

text \<open>
  Whether the storage itself fails is not decided by the program. Each handler makes at
  most one query and one exec; the two flags say whether the driver fails them.
\<close>

record faults =
  query_fails :: bool
  exec_fails :: bool

definition no_faults :: faults where
  "no_faults = \<lparr>query_fails = False, exec_fails = False\<rparr>"

text \<open>The statuses of net/http that the handlers use, and the messages they send.\<close>

datatype status =
    StatusOK
  | StatusCreated
  | StatusBadRequest
  | StatusNotFound
  | StatusConflict
  | StatusInternalServerError

datatype message =
    Dados_invalidos
  | Erro_ao_verificar_ID_do_livro
  | ID_do_livro_ja_existe
  | Erro_ao_adicionar_livro
  | Erro_ao_buscar_livros
  | Erro_ao_ler_os_dados_dos_livros
  | ID_e_necessario
  | Livro_nao_encontrado
  | Livro_nao_disponivel
  | Erro_ao_realizar_checkout
  | Erro_ao_retornar_livro

datatype body =
    JSON_book book
  | JSON_books "book list"
  | JSON_message message

type_synonym response = "status \<times> body"

subsection \<open>The storage calls\<close>

text \<open>
  \<^verbatim>\<open>db.QueryRow("SELECT ... FROM books WHERE id = ?", id)\<close>: the first row with that
  id, \<^verbatim>\<open>sql.ErrNoRows\<close> when there is none, the driver's error when the query fails.
\<close>

definition query_row :: "bool \<Rightarrow> books_table \<Rightarrow> string \<Rightarrow> go_error + row" where
  "query_row fails tbl i =
     (if fails then Inl ErrStorage
      else case find (\<lambda>r. col_id r = i) tbl of
             None \<Rightarrow> Inl ErrNoRows
           | Some r \<Rightarrow> Inr r)"

text \<open>
  \<^verbatim>\<open>Scan(&b.ID, &b.Title, &b.Author, &b.Quantity)\<close>: the three TEXT columns go into
  the strings; the quantity goes into the \<^verbatim>\<open>int\<close> when it is an INTEGER, and Scan
  returns a conversion error when it is a REAL.
\<close>

definition scan_book :: "row \<Rightarrow> go_error + book" where
  "scan_book r =
     (case col_quantity r of
        SqlInteger q \<Rightarrow>
          Inr \<lparr>ID = col_id r, Title = col_title r, Author = col_author r, Quantity = q\<rparr>
      | SqlReal_over \<Rightarrow> Inl ErrConversion
      | SqlReal_under \<Rightarrow> Inl ErrConversion)"

text \<open>
  \<^verbatim>\<open>db.Exec("INSERT INTO books(id, title, author, quantity) VALUES (?, ?, ?, ?)", ...)\<close>:
  the PRIMARY KEY refuses an id that a row already has; otherwise the row is appended.
\<close>

definition exec_insert :: "bool \<Rightarrow> books_table \<Rightarrow> book \<Rightarrow> go_error + books_table" where
  "exec_insert fails tbl b =
     (if fails then Inl ErrStorage
      else if find (\<lambda>r. col_id r = ID b) tbl \<noteq> None then Inl ErrConstraint
      else Inr (tbl @ [\<lparr>col_id = ID b, col_title = Title b, col_author = Author b,
                        col_quantity = SqlInteger (Quantity b)\<rparr>]))"

text \<open>SQLite's \<^verbatim>\<open>quantity + 1\<close> and \<^verbatim>\<open>quantity - 1\<close> on a stored value.\<close>

definition sql_plus_one :: "sql_value \<Rightarrow> sql_value" where
  "sql_plus_one v =
     (case v of
        SqlInteger q \<Rightarrow> if sint q = 2 ^ 63 - 1 then SqlReal_over else SqlInteger (q + 1)
      | SqlReal_over \<Rightarrow> SqlReal_over
      | SqlReal_under \<Rightarrow> SqlReal_under)"

definition sql_minus_one :: "sql_value \<Rightarrow> sql_value" where
  "sql_minus_one v =
     (case v of
        SqlInteger q \<Rightarrow> if sint q = - (2 ^ 63) then SqlReal_under else SqlInteger (q - 1)
      | SqlReal_over \<Rightarrow> SqlReal_over
      | SqlReal_under \<Rightarrow> SqlReal_under)"

text \<open>
  \<^verbatim>\<open>db.Exec("UPDATE books SET quantity = <expr> WHERE id = ?", id)\<close>: every row with
  that id gets the new quantity; an update that matches no row is no error.
\<close>

definition exec_update ::
    "bool \<Rightarrow> books_table \<Rightarrow> (sql_value \<Rightarrow> sql_value) \<Rightarrow> string \<Rightarrow> go_error + books_table" where
  "exec_update fails tbl expr i =
     (if fails then Inl ErrStorage
      else Inr (map (\<lambda>r. if col_id r = i then r\<lparr>col_quantity := expr (col_quantity r)\<rparr> else r)
                  tbl))"

subsection \<open>The handlers\<close>

text \<open>initDB on a new database file: the table exists and has no row.\<close>

definition initDB :: books_table where
  "initDB = []"

text \<open>
  createBook. \<open>bound\<close> is what \<^verbatim>\<open>c.BindJSON(&newBook)\<close> leaves: \<open>None\<close> when it
  returns an error, otherwise the struct, in which a member absent from the body keeps
  Go's zero value (the empty string, 0). The query scans the id alone into
  \<^verbatim>\<open>existingBook.ID\<close>, which stays empty when Scan returns an error.
\<close>

definition createBook :: "faults \<Rightarrow> book option \<Rightarrow> books_table \<Rightarrow> response \<times> books_table" where
  "createBook f bound tbl =
     (case bound of
        None \<Rightarrow> ((StatusBadRequest, JSON_message Dados_invalidos), tbl)
      | Some newBook \<Rightarrow>
          (let res = query_row (query_fails f) tbl (ID newBook);
               err = (case res of Inl e \<Rightarrow> Some e | Inr r \<Rightarrow> None);
               existingBook_ID = (case res of Inl e \<Rightarrow> [] | Inr r \<Rightarrow> col_id r)
           in if err \<noteq> None \<and> err \<noteq> Some ErrNoRows
              then ((StatusInternalServerError, JSON_message Erro_ao_verificar_ID_do_livro), tbl)
              else if existingBook_ID \<noteq> []
              then ((StatusConflict, JSON_message ID_do_livro_ja_existe), tbl)
              else (case exec_insert (exec_fails f) tbl newBook of
                      Inl e \<Rightarrow>
                        ((StatusInternalServerError, JSON_message Erro_ao_adicionar_livro), tbl)
                    | Inr tbl' \<Rightarrow> ((StatusCreated, JSON_book newBook), tbl'))))"

text \<open>
  getBooks: the loop over \<^verbatim>\<open>rows.Next()\<close> scans each row in turn and stops with
  the 500 response at the first row that Scan refuses.
\<close>

fun scan_rows :: "row list \<Rightarrow> book list \<Rightarrow> go_error + book list" where
  "scan_rows [] books = Inr books"
| "scan_rows (r # rs) books =
     (case scan_book r of
        Inl e \<Rightarrow> Inl e
      | Inr b \<Rightarrow> scan_rows rs (books @ [b]))"

definition getBooks :: "faults \<Rightarrow> books_table \<Rightarrow> response \<times> books_table" where
  "getBooks f tbl =
     (if query_fails f
      then ((StatusInternalServerError, JSON_message Erro_ao_buscar_livros), tbl)
      else case scan_rows tbl [] of
             Inl e \<Rightarrow> ((StatusInternalServerError, JSON_message Erro_ao_ler_os_dados_dos_livros), tbl)
           | Inr books \<Rightarrow> ((StatusOK, JSON_books books), tbl))"

text \<open>
  getBookById: \<^verbatim>\<open>sql.ErrNoRows\<close> becomes the function's own error, any other error
  of the query or of Scan is returned as it is.
\<close>

definition getBookById :: "bool \<Rightarrow> books_table \<Rightarrow> string \<Rightarrow> go_error + book" where
  "getBookById fails tbl i =
     (case (case query_row fails tbl i of Inl e \<Rightarrow> Inl e | Inr r \<Rightarrow> scan_book r) of
        Inl err \<Rightarrow> if err = ErrNoRows then Inl ErrLivroNaoEncontrado else Inl err
      | Inr b \<Rightarrow> Inr b)"

text \<open>The handler that main registers for \<^verbatim>\<open>GET /books/:id\<close>.\<close>

definition getBook :: "faults \<Rightarrow> string \<Rightarrow> books_table \<Rightarrow> response \<times> books_table" where
  "getBook f i tbl =
     (case getBookById (query_fails f) tbl i of
        Inl err \<Rightarrow> ((StatusNotFound, JSON_message Livro_nao_encontrado), tbl)
      | Inr b \<Rightarrow> ((StatusOK, JSON_book b), tbl))"

text \<open>
  checkoutBook. \<open>bound\<close> is what BindJSON leaves in \<^verbatim>\<open>request.ID\<close>: \<open>None\<close> when it
  returns an error, the empty string when the body has no id.
\<close>

definition checkoutBook :: "faults \<Rightarrow> string option \<Rightarrow> books_table \<Rightarrow> response \<times> books_table" where
  "checkoutBook f bound tbl =
     (case bound of
        None \<Rightarrow> ((StatusBadRequest, JSON_message Dados_invalidos), tbl)
      | Some request_ID \<Rightarrow>
          if request_ID = [] then ((StatusBadRequest, JSON_message ID_e_necessario), tbl)
          else (case getBookById (query_fails f) tbl request_ID of
                  Inl err \<Rightarrow> ((StatusNotFound, JSON_message Livro_nao_encontrado), tbl)
                | Inr b \<Rightarrow>
                    if sint (Quantity b) \<le> 0
                    then ((StatusBadRequest, JSON_message Livro_nao_disponivel), tbl)
                    else (case exec_update (exec_fails f) tbl sql_minus_one request_ID of
                            Inl err \<Rightarrow>
                              ((StatusInternalServerError,
                                JSON_message Erro_ao_realizar_checkout), tbl)
                          | Inr tbl' \<Rightarrow> ((StatusOK, JSON_book b), tbl'))))"

text \<open>returnBook: the same without the test of the quantity, and with \<^verbatim>\<open>quantity + 1\<close>.\<close>

definition returnBook :: "faults \<Rightarrow> string option \<Rightarrow> books_table \<Rightarrow> response \<times> books_table" where
  "returnBook f bound tbl =
     (case bound of
        None \<Rightarrow> ((StatusBadRequest, JSON_message Dados_invalidos), tbl)
      | Some request_ID \<Rightarrow>
          if request_ID = [] then ((StatusBadRequest, JSON_message ID_e_necessario), tbl)
          else (case getBookById (query_fails f) tbl request_ID of
                  Inl err \<Rightarrow> ((StatusNotFound, JSON_message Livro_nao_encontrado), tbl)
                | Inr b \<Rightarrow>
                    (case exec_update (exec_fails f) tbl sql_plus_one request_ID of
                       Inl err \<Rightarrow>
                         ((StatusInternalServerError, JSON_message Erro_ao_retornar_livro), tbl)
                     | Inr tbl' \<Rightarrow> ((StatusOK, JSON_book b), tbl'))))"

subsection \<open>The routes of main, and runs of the server\<close>

datatype request =
    POST_books "book option"
  | GET_books
  | GET_books_id string
  | PATCH_books_checkout "string option"
  | PATCH_books_return "string option"

fun router :: "faults \<Rightarrow> request \<Rightarrow> books_table \<Rightarrow> response \<times> books_table" where
  "router f (POST_books bound) tbl = createBook f bound tbl"
| "router f GET_books tbl = getBooks f tbl"
| "router f (GET_books_id i) tbl = getBook f i tbl"
| "router f (PATCH_books_checkout bound) tbl = checkoutBook f bound tbl"
| "router f (PATCH_books_return bound) tbl = returnBook f bound tbl"

text \<open>The table after a sequence of requests, served one after the other.\<close>

fun run :: "(faults \<times> request) list \<Rightarrow> books_table \<Rightarrow> books_table" where
  "run [] tbl = tbl"
| "run ((f, rq) # rest) tbl = run rest (snd (router f rq tbl))"

subsection \<open>The two invariants of the table\<close>

text \<open>No two rows share an id; no row has a quantity below 0.\<close>

definition unique_ids :: "books_table \<Rightarrow> bool" where
  "unique_ids tbl = distinct (map col_id tbl)"

fun quantity_not_negative :: "sql_value \<Rightarrow> bool" where
  "quantity_not_negative (SqlInteger q) = (0 \<le> sint q)"
| "quantity_not_negative SqlReal_over = True"
| "quantity_not_negative SqlReal_under = False"

definition no_negative_quantity :: "books_table \<Rightarrow> bool" where
  "no_negative_quantity tbl = list_all (\<lambda>r. quantity_not_negative (col_quantity r)) tbl"


section \<open>Properties\<close>

subsection \<open>Signed 64-bit arithmetic\<close>

lemma sint_minus_one: "0 < sint (q :: 64 word) \<Longrightarrow> sint (q - 1) = sint q - 1"
  using sint_lt [of q]
  by (simp add: sint_word_ariths signed_take_bit_int_eq_self)

lemma sint_plus_one: "sint (q :: 64 word) \<noteq> 2 ^ 63 - 1 \<Longrightarrow> sint (q + 1) = sint q + 1"
  using sint_lt [of q] sint_ge [of q]
  by (simp add: sint_word_ariths signed_take_bit_int_eq_self)

subsection \<open>Looking a row up, before and after an update\<close>

lemma find_id_update:
  "find (\<lambda>r. col_id r = j)
     (map (\<lambda>r. if col_id r = i then r\<lparr>col_quantity := e (col_quantity r)\<rparr> else r) tbl) =
   map_option (\<lambda>r. if col_id r = i then r\<lparr>col_quantity := e (col_quantity r)\<rparr> else r)
     (find (\<lambda>r. col_id r = j) tbl)"
  by (induction tbl) auto

lemma find_id_Some: "find (\<lambda>r. col_id r = i) tbl = Some r \<Longrightarrow> col_id r = i \<and> r \<in> set tbl"
  by (auto simp: find_Some_iff)

lemma find_id_None: "find (\<lambda>r. col_id r = i) tbl = None \<longleftrightarrow> (\<forall>r\<in>set tbl. col_id r \<noteq> i)"
  by (auto simp: find_None_iff)

lemma getBookById_Inr:
  "getBookById fails tbl i = Inr b \<longleftrightarrow>
     \<not> fails \<and> (\<exists>r. find (\<lambda>r. col_id r = i) tbl = Some r \<and> scan_book r = Inr b)"
  by (auto simp: getBookById_def query_row_def split: option.splits sum.splits)

lemma scan_book_Inr:
  "scan_book r = Inr b \<longleftrightarrow>
     col_quantity r = SqlInteger (Quantity b) \<and> ID b = col_id r \<and> Title b = col_title r \<and>
     Author b = col_author r"
  by (cases b) (auto simp: scan_book_def split: sql_value.splits)

lemma getBookById_update:
  "getBookById False tbl i = Inr b \<Longrightarrow> exec_update False tbl e i = Inr tbl' \<Longrightarrow>
   e (SqlInteger (Quantity b)) = SqlInteger q \<Longrightarrow>
   getBookById False tbl' i = Inr (b\<lparr>Quantity := q\<rparr>)"
  by (auto simp: getBookById_Inr scan_book_Inr exec_update_def find_id_update dest: find_id_Some)

lemma find_id_update_other:
  "j \<noteq> i \<Longrightarrow>
   find (\<lambda>r. col_id r = j)
     (map (\<lambda>r. if col_id r = i then r\<lparr>col_quantity := e (col_quantity r)\<rparr> else r) tbl) =
   find (\<lambda>r. col_id r = j) tbl"
  by (induction tbl) auto

lemma getBookById_update_other:
  "exec_update False tbl e i = Inr tbl' \<Longrightarrow> j \<noteq> i \<Longrightarrow>
   getBookById False tbl' j = getBookById False tbl j"
  by (auto simp: getBookById_def query_row_def exec_update_def find_id_update_other)

lemma getBookById_update_Real:
  assumes "getBookById False tbl i = Inr b"
    and "exec_update False tbl e i = Inr tbl'"
    and "e (SqlInteger (Quantity b)) = SqlReal_over"
  shows "getBookById False tbl' i = Inl ErrConversion"
proof -
  obtain r where r: "find (\<lambda>r. col_id r = i) tbl = Some r" "scan_book r = Inr b"
    using assms(1) by (auto simp: getBookById_Inr)
  have "col_id r = i" "col_quantity r = SqlInteger (Quantity b)"
    using r by (auto simp: scan_book_Inr dest: find_id_Some)
  then have "find (\<lambda>r. col_id r = i) tbl' = Some (r\<lparr>col_quantity := SqlReal_over\<rparr>)"
    using assms(2,3) r(1) by (auto simp: exec_update_def find_id_update)
  then show ?thesis
    by (simp add: getBookById_def query_row_def scan_book_def)
qed

lemma getBookById_unknown:
  "\<forall>r\<in>set tbl. col_id r \<noteq> i \<Longrightarrow>
   getBookById fails tbl i = Inl (if fails then ErrStorage else ErrLivroNaoEncontrado)"
  by (simp add: getBookById_def query_row_def find_id_None [symmetric])

text \<open>What a 200 response of checkoutBook or returnBook says about the request.\<close>

lemma checkoutBook_OK:
  assumes "checkoutBook f bound tbl = ((StatusOK, bdy), tbl')"
  shows "\<exists>i b. bound = Some i \<and> i \<noteq> [] \<and> getBookById False tbl i = Inr b \<and>
           0 < sint (Quantity b) \<and> bdy = JSON_book b \<and>
           exec_update False tbl sql_minus_one i = Inr tbl'"
  using assms
  by (auto simp: checkoutBook_def getBookById_Inr exec_update_def
           split: option.splits if_splits sum.splits)

lemma returnBook_OK:
  assumes "returnBook f bound tbl = ((StatusOK, bdy), tbl')"
  shows "\<exists>i b. bound = Some i \<and> i \<noteq> [] \<and> getBookById False tbl i = Inr b \<and>
           bdy = JSON_book b \<and> exec_update False tbl sql_plus_one i = Inr tbl'"
  using assms
  by (auto simp: returnBook_def getBookById_Inr exec_update_def
           split: option.splits if_splits sum.splits)

subsection \<open>Checking a book out\<close>

text \<open>
  Claim C2, as amended. Take a book that getBookById finds under a non-empty id \<open>i\<close>,
  with quantity \<open>n > 0\<close>, and let the query and the update both go through. Then
  checkoutBook answers 200, and getBookById on the table it leaves finds the same book
  with quantity \<open>n - 1\<close>: id, title and author are as before.
\<close>

theorem checkoutBook_decrements:
  assumes "i \<noteq> []"
    and "getBookById False tbl i = Inr b"
    and "sint (Quantity b) = n" and "0 < n"
    and "\<not> query_fails f" and "\<not> exec_fails f"
  shows "fst (fst (checkoutBook f (Some i) tbl)) = StatusOK \<and>
         getBookById False (snd (checkoutBook f (Some i) tbl)) i =
           Inr (b\<lparr>Quantity := Quantity b - 1\<rparr>) \<and>
         sint (Quantity b - 1) = n - 1"
proof -
  let ?tbl' = "map (\<lambda>r. if col_id r = i then r\<lparr>col_quantity := sql_minus_one (col_quantity r)\<rparr>
                           else r) tbl"
  have upd: "exec_update False tbl sql_minus_one i = Inr ?tbl'"
    by (simp add: exec_update_def)
  have pos: "0 < sint (Quantity b)"
    using assms(3,4) by simp
  then have dec: "sql_minus_one (SqlInteger (Quantity b)) = SqlInteger (Quantity b - 1)"
    by (simp add: sql_minus_one_def)
  have run: "checkoutBook f (Some i) tbl = ((StatusOK, JSON_book b), ?tbl')"
    using assms(1,2,5,6) pos upd by (simp add: checkoutBook_def)
  have "getBookById False ?tbl' i = Inr (b\<lparr>Quantity := Quantity b - 1\<rparr>)"
    by (rule getBookById_update [OF assms(2) upd dec])
  moreover have "sint (Quantity b - 1) = n - 1"
    using sint_minus_one [OF pos] assms(3) by simp
  ultimately show ?thesis
    by (simp add: run)
qed

theorem checkoutBook_decrements_witness:
  "getBookById False
     [\<lparr>col_id = ''b1'', col_title = ''T'', col_author = ''A'', col_quantity = SqlInteger 2\<rparr>]
     ''b1'' = Inr \<lparr>ID = ''b1'', Title = ''T'', Author = ''A'', Quantity = 2\<rparr> \<and>
   fst (fst (checkoutBook no_faults (Some ''b1'')
     [\<lparr>col_id = ''b1'', col_title = ''T'', col_author = ''A'', col_quantity = SqlInteger 2\<rparr>])) =
     StatusOK \<and>
   getBookById False
     (snd (checkoutBook no_faults (Some ''b1'')
        [\<lparr>col_id = ''b1'', col_title = ''T'', col_author = ''A'',
          col_quantity = SqlInteger 2\<rparr>]))
     ''b1'' = Inr \<lparr>ID = ''b1'', Title = ''T'', Author = ''A'', Quantity = 1\<rparr>"
  using checkoutBook_decrements
    [where i = "''b1''" and f = no_faults and n = 2
       and b = "\<lparr>ID = ''b1'', Title = ''T'', Author = ''A'', Quantity = 2\<rparr>"
       and tbl = "[\<lparr>col_id = ''b1'', col_title = ''T'', col_author = ''A'',
                    col_quantity = SqlInteger 2\<rparr>]"]
  by (simp add: getBookById_def query_row_def scan_book_def no_faults_def)

text \<open>
  Claim C2 as it is written speaks of every item in the store. createBook stores a book
  whose id is the empty string, and checkoutBook refuses the empty id with 400
  "ID e necessario" before it looks anything up: that book has quantity 1 and cannot be
  checked out.
\<close>

theorem checkoutBook_empty_id_counterexample:
  "run [(no_faults, POST_books (Some \<lparr>ID = [], Title = ''T'', Author = ''A'', Quantity = 1\<rparr>))]
     initDB =
     [\<lparr>col_id = [], col_title = ''T'', col_author = ''A'', col_quantity = SqlInteger 1\<rparr>] \<and>
   getBookById False
     [\<lparr>col_id = [], col_title = ''T'', col_author = ''A'', col_quantity = SqlInteger 1\<rparr>] [] =
     Inr \<lparr>ID = [], Title = ''T'', Author = ''A'', Quantity = 1\<rparr> \<and>
   checkoutBook no_faults (Some [])
     [\<lparr>col_id = [], col_title = ''T'', col_author = ''A'', col_quantity = SqlInteger 1\<rparr>] =
     ((StatusBadRequest, JSON_message ID_e_necessario),
      [\<lparr>col_id = [], col_title = ''T'', col_author = ''A'', col_quantity = SqlInteger 1\<rparr>])"
  by (simp add: initDB_def createBook_def exec_insert_def getBookById_def query_row_def
        scan_book_def checkoutBook_def no_faults_def)

text \<open>
  Claim C3, as amended. Take a book that getBookById finds under a non-empty id \<open>i\<close>,
  with quantity 0, and let the query go through. Then checkoutBook answers 400
  "Livro nao disponivel" and the table is the one it was given.
\<close>

theorem checkoutBook_unavailable:
  assumes "i \<noteq> []"
    and "getBookById False tbl i = Inr b"
    and "sint (Quantity b) = 0"
    and "\<not> query_fails f"
  shows "checkoutBook f (Some i) tbl =
           ((StatusBadRequest, JSON_message Livro_nao_disponivel), tbl)"
  using assms by (simp add: checkoutBook_def)

theorem checkoutBook_unavailable_witness:
  "getBookById False
     [\<lparr>col_id = ''b1'', col_title = ''T'', col_author = ''A'', col_quantity = SqlInteger 0\<rparr>]
     ''b1'' = Inr \<lparr>ID = ''b1'', Title = ''T'', Author = ''A'', Quantity = 0\<rparr> \<and>
   checkoutBook no_faults (Some ''b1'')
     [\<lparr>col_id = ''b1'', col_title = ''T'', col_author = ''A'', col_quantity = SqlInteger 0\<rparr>] =
     ((StatusBadRequest, JSON_message Livro_nao_disponivel),
      [\<lparr>col_id = ''b1'', col_title = ''T'', col_author = ''A'', col_quantity = SqlInteger 0\<rparr>])"
  using checkoutBook_unavailable
    [where i = "''b1''" and f = no_faults
       and b = "\<lparr>ID = ''b1'', Title = ''T'', Author = ''A'', Quantity = 0\<rparr>"
       and tbl = "[\<lparr>col_id = ''b1'', col_title = ''T'', col_author = ''A'',
                    col_quantity = SqlInteger 0\<rparr>]"]
  by (simp add: getBookById_def query_row_def scan_book_def no_faults_def)

text \<open>
  Claim C3 as it is written: the book stored under the empty id has quantity 0, and
  checkoutBook answers 400 "ID e necessario", which is not the answer
  "Livro nao disponivel". The table is unchanged.
\<close>

theorem checkoutBook_empty_id_zero_counterexample:
  "run [(no_faults, POST_books (Some \<lparr>ID = [], Title = ''T'', Author = ''A'', Quantity = 0\<rparr>))]
     initDB =
     [\<lparr>col_id = [], col_title = ''T'', col_author = ''A'', col_quantity = SqlInteger 0\<rparr>] \<and>
   getBookById False
     [\<lparr>col_id = [], col_title = ''T'', col_author = ''A'', col_quantity = SqlInteger 0\<rparr>] [] =
     Inr \<lparr>ID = [], Title = ''T'', Author = ''A'', Quantity = 0\<rparr> \<and>
   checkoutBook no_faults (Some [])
     [\<lparr>col_id = [], col_title = ''T'', col_author = ''A'', col_quantity = SqlInteger 0\<rparr>] =
     ((StatusBadRequest, JSON_message ID_e_necessario),
      [\<lparr>col_id = [], col_title = ''T'', col_author = ''A'', col_quantity = SqlInteger 0\<rparr>]) \<and>
   fst (checkoutBook no_faults (Some [])
     [\<lparr>col_id = [], col_title = ''T'', col_author = ''A'', col_quantity = SqlInteger 0\<rparr>]) \<noteq>
     (StatusBadRequest, JSON_message Livro_nao_disponivel)"
  by (simp add: initDB_def createBook_def exec_insert_def getBookById_def query_row_def
        scan_book_def checkoutBook_def no_faults_def)

subsection \<open>Returning a book\<close>

text \<open>
  Claim C6, as amended. Take a book that getBookById finds under a non-empty id \<open>i\<close>,
  with a quantity \<open>n\<close> below \<open>2 ^ 63 - 1\<close>, and let the query and the update both go
  through. Then returnBook answers 200, whatever \<open>n\<close> is, and getBookById on the table
  it leaves finds the book with quantity \<open>n + 1\<close>.
\<close>

theorem returnBook_increments:
  assumes "i \<noteq> []"
    and "getBookById False tbl i = Inr b"
    and "sint (Quantity b) = n" and "n < 2 ^ 63 - 1"
    and "\<not> query_fails f" and "\<not> exec_fails f"
  shows "fst (fst (returnBook f (Some i) tbl)) = StatusOK \<and>
         getBookById False (snd (returnBook f (Some i) tbl)) i =
           Inr (b\<lparr>Quantity := Quantity b + 1\<rparr>) \<and>
         sint (Quantity b + 1) = n + 1"
proof -
  let ?tbl' = "map (\<lambda>r. if col_id r = i then r\<lparr>col_quantity := sql_plus_one (col_quantity r)\<rparr>
                           else r) tbl"
  have upd: "exec_update False tbl sql_plus_one i = Inr ?tbl'"
    by (simp add: exec_update_def)
  have below: "sint (Quantity b) \<noteq> 2 ^ 63 - 1"
    using assms(3,4) by simp
  then have inc: "sql_plus_one (SqlInteger (Quantity b)) = SqlInteger (Quantity b + 1)"
    by (simp add: sql_plus_one_def)
  have run: "returnBook f (Some i) tbl = ((StatusOK, JSON_book b), ?tbl')"
    using assms(1,2,5,6) upd by (simp add: returnBook_def)
  have "getBookById False ?tbl' i = Inr (b\<lparr>Quantity := Quantity b + 1\<rparr>)"
    by (rule getBookById_update [OF assms(2) upd inc])
  moreover have "sint (Quantity b + 1) = n + 1"
    using sint_plus_one [OF below] assms(3) by simp
  ultimately show ?thesis
    by (simp add: run)
qed

theorem returnBook_increments_witness:
  "getBookById False
     [\<lparr>col_id = ''b1'', col_title = ''T'', col_author = ''A'', col_quantity = SqlInteger 0\<rparr>]
     ''b1'' = Inr \<lparr>ID = ''b1'', Title = ''T'', Author = ''A'', Quantity = 0\<rparr> \<and>
   fst (fst (returnBook no_faults (Some ''b1'')
     [\<lparr>col_id = ''b1'', col_title = ''T'', col_author = ''A'', col_quantity = SqlInteger 0\<rparr>])) =
     StatusOK \<and>
   getBookById False
     (snd (returnBook no_faults (Some ''b1'')
        [\<lparr>col_id = ''b1'', col_title = ''T'', col_author = ''A'',
          col_quantity = SqlInteger 0\<rparr>]))
     ''b1'' = Inr \<lparr>ID = ''b1'', Title = ''T'', Author = ''A'', Quantity = 1\<rparr>"
  using returnBook_increments
    [where i = "''b1''" and f = no_faults and n = 0
       and b = "\<lparr>ID = ''b1'', Title = ''T'', Author = ''A'', Quantity = 0\<rparr>"
       and tbl = "[\<lparr>col_id = ''b1'', col_title = ''T'', col_author = ''A'',
                    col_quantity = SqlInteger 0\<rparr>]"]
  by (simp add: getBookById_def query_row_def scan_book_def no_faults_def)

text \<open>
  Claim C6 as it is written allows every quantity \<open>n \<ge> 0\<close> and every item. At
  \<open>n = 2 ^ 63 - 1\<close>, the largest quantity a book can have, returnBook answers 200 and the
  stored quantity becomes a REAL: the next getBookById fails in Scan and reports no
  quantity. And returnBook refuses the book stored under the empty id with 400
  "ID e necessario".
\<close>

theorem returnBook_counterexample:
  "run [(no_faults,
         POST_books (Some \<lparr>ID = ''b1'', Title = ''T'', Author = ''A'',
                            Quantity = 9223372036854775807\<rparr>))] initDB =
     [\<lparr>col_id = ''b1'', col_title = ''T'', col_author = ''A'',
       col_quantity = SqlInteger 9223372036854775807\<rparr>] \<and>
   getBookById False
     [\<lparr>col_id = ''b1'', col_title = ''T'', col_author = ''A'',
       col_quantity = SqlInteger 9223372036854775807\<rparr>] ''b1'' =
     Inr \<lparr>ID = ''b1'', Title = ''T'', Author = ''A'', Quantity = 9223372036854775807\<rparr> \<and>
   sint (9223372036854775807 :: 64 word) = 2 ^ 63 - 1 \<and>
   returnBook no_faults (Some ''b1'')
     [\<lparr>col_id = ''b1'', col_title = ''T'', col_author = ''A'',
       col_quantity = SqlInteger 9223372036854775807\<rparr>] =
     ((StatusOK,
       JSON_book \<lparr>ID = ''b1'', Title = ''T'', Author = ''A'', Quantity = 9223372036854775807\<rparr>),
      [\<lparr>col_id = ''b1'', col_title = ''T'', col_author = ''A'', col_quantity = SqlReal_over\<rparr>]) \<and>
   getBookById False
     [\<lparr>col_id = ''b1'', col_title = ''T'', col_author = ''A'', col_quantity = SqlReal_over\<rparr>]
     ''b1'' = Inl ErrConversion \<and>
   returnBook no_faults (Some [])
     [\<lparr>col_id = [], col_title = ''T'', col_author = ''A'', col_quantity = SqlInteger 1\<rparr>] =
     ((StatusBadRequest, JSON_message ID_e_necessario),
      [\<lparr>col_id = [], col_title = ''T'', col_author = ''A'', col_quantity = SqlInteger 1\<rparr>])"
  by (simp add: initDB_def createBook_def exec_insert_def getBookById_def query_row_def
        scan_book_def returnBook_def exec_update_def sql_plus_one_def no_faults_def)

subsection \<open>What a successful checkout or return sends back\<close>

text \<open>
  Claim C4. When checkoutBook or returnBook answers 200, the body is the book \<open>b\<close> that
  getBookById read from the table before the update. Its quantity is the one stored
  before the update, not the one stored after it: after a checkout getBookById finds
  quantity \<open>Quantity b - 1\<close>, after a return \<open>Quantity b + 1\<close> (or nothing it can read,
  at the largest quantity).
\<close>

theorem response_is_item_read_before_update:
  "(checkoutBook f bound tbl = ((StatusOK, bdy), tbl') \<longrightarrow>
      (\<exists>i b. bound = Some i \<and> bdy = JSON_book b \<and>
             getBookById False tbl i = Inr b \<and>
             getBookById False tbl' i = Inr (b\<lparr>Quantity := Quantity b - 1\<rparr>) \<and>
             Quantity b - 1 \<noteq> Quantity b)) \<and>
   (returnBook f bound tbl = ((StatusOK, bdy), tbl') \<longrightarrow>
      (\<exists>i b. bound = Some i \<and> bdy = JSON_book b \<and>
             getBookById False tbl i = Inr b \<and>
             getBookById False tbl' i =
               (if sint (Quantity b) = 2 ^ 63 - 1 then Inl ErrConversion
                else Inr (b\<lparr>Quantity := Quantity b + 1\<rparr>)) \<and>
             Quantity b + 1 \<noteq> Quantity b))"
proof (intro conjI impI)
  assume "checkoutBook f bound tbl = ((StatusOK, bdy), tbl')"
  then obtain i b where ok: "bound = Some i" "getBookById False tbl i = Inr b"
      "0 < sint (Quantity b)" "bdy = JSON_book b"
      "exec_update False tbl sql_minus_one i = Inr tbl'"
    using checkoutBook_OK by blast
  have "sql_minus_one (SqlInteger (Quantity b)) = SqlInteger (Quantity b - 1)"
    using ok(3) by (simp add: sql_minus_one_def)
  then have "getBookById False tbl' i = Inr (b\<lparr>Quantity := Quantity b - 1\<rparr>)"
    by (rule getBookById_update [OF ok(2) ok(5)])
  then show "\<exists>i b. bound = Some i \<and> bdy = JSON_book b \<and>
             getBookById False tbl i = Inr b \<and>
             getBookById False tbl' i = Inr (b\<lparr>Quantity := Quantity b - 1\<rparr>) \<and>
             Quantity b - 1 \<noteq> Quantity b"
    using ok by simp
next
  assume "returnBook f bound tbl = ((StatusOK, bdy), tbl')"
  then obtain i b where ok: "bound = Some i" "getBookById False tbl i = Inr b"
      "bdy = JSON_book b" "exec_update False tbl sql_plus_one i = Inr tbl'"
    using returnBook_OK by blast
  have "getBookById False tbl' i =
          (if sint (Quantity b) = 2 ^ 63 - 1 then Inl ErrConversion
           else Inr (b\<lparr>Quantity := Quantity b + 1\<rparr>))"
  proof (cases "sint (Quantity b) = 2 ^ 63 - 1")
    case True
    then have "sql_plus_one (SqlInteger (Quantity b)) = SqlReal_over"
      by (simp add: sql_plus_one_def)
    then show ?thesis
      using getBookById_update_Real [OF ok(2) ok(4)] True by simp
  next
    case False
    then have "sql_plus_one (SqlInteger (Quantity b)) = SqlInteger (Quantity b + 1)"
      by (simp add: sql_plus_one_def)
    then show ?thesis
      using getBookById_update [OF ok(2) ok(4)] False by simp
  qed
  then show "\<exists>i b. bound = Some i \<and> bdy = JSON_book b \<and>
             getBookById False tbl i = Inr b \<and>
             getBookById False tbl' i =
               (if sint (Quantity b) = 2 ^ 63 - 1 then Inl ErrConversion
                else Inr (b\<lparr>Quantity := Quantity b + 1\<rparr>)) \<and>
             Quantity b + 1 \<noteq> Quantity b"
    using ok by simp
qed

theorem response_is_item_read_before_update_witness:
  "checkoutBook no_faults (Some ''b1'')
     [\<lparr>col_id = ''b1'', col_title = ''T'', col_author = ''A'', col_quantity = SqlInteger 2\<rparr>] =
     ((StatusOK, JSON_book \<lparr>ID = ''b1'', Title = ''T'', Author = ''A'', Quantity = 2\<rparr>),
      [\<lparr>col_id = ''b1'', col_title = ''T'', col_author = ''A'', col_quantity = SqlInteger 1\<rparr>]) \<and>
   returnBook no_faults (Some ''b1'')
     [\<lparr>col_id = ''b1'', col_title = ''T'', col_author = ''A'', col_quantity = SqlInteger 2\<rparr>] =
     ((StatusOK, JSON_book \<lparr>ID = ''b1'', Title = ''T'', Author = ''A'', Quantity = 2\<rparr>),
      [\<lparr>col_id = ''b1'', col_title = ''T'', col_author = ''A'', col_quantity = SqlInteger 3\<rparr>]) \<and>
   getBookById False
     [\<lparr>col_id = ''b1'', col_title = ''T'', col_author = ''A'', col_quantity = SqlInteger 2\<rparr>]
     ''b1'' = Inr \<lparr>ID = ''b1'', Title = ''T'', Author = ''A'', Quantity = 2\<rparr>"
  using response_is_item_read_before_update
    [where f = no_faults and bound = "Some ''b1''"
       and bdy = "JSON_book \<lparr>ID = ''b1'', Title = ''T'', Author = ''A'', Quantity = 2\<rparr>"
       and tbl = "[\<lparr>col_id = ''b1'', col_title = ''T'', col_author = ''A'',
                    col_quantity = SqlInteger 2\<rparr>]"
       and tbl' = "[\<lparr>col_id = ''b1'', col_title = ''T'', col_author = ''A'',
                    col_quantity = SqlInteger 1\<rparr>]"]
  by (simp add: checkoutBook_def returnBook_def getBookById_def query_row_def scan_book_def
        exec_update_def sql_minus_one_def sql_plus_one_def no_faults_def)

subsection \<open>Unknown ids and failing reads\<close>

text \<open>
  Claim C7, as amended. When no row has the id \<open>i\<close>, getBookById returns its error
  "livro nao encontrado" and the GET handler answers 404; when \<open>i\<close> is moreover not the
  empty string, checkoutBook and returnBook answer 404 "Livro nao encontrado" too. In
  each case the table is the one the handler was given.
\<close>

theorem unknown_id_not_found:
  assumes "\<forall>r\<in>set tbl. col_id r \<noteq> i"
  shows "getBookById False tbl i = Inl ErrLivroNaoEncontrado \<and>
         getBook f i tbl = ((StatusNotFound, JSON_message Livro_nao_encontrado), tbl) \<and>
         (i \<noteq> [] \<longrightarrow>
            checkoutBook f (Some i) tbl =
              ((StatusNotFound, JSON_message Livro_nao_encontrado), tbl) \<and>
            returnBook f (Some i) tbl =
              ((StatusNotFound, JSON_message Livro_nao_encontrado), tbl))"
  using getBookById_unknown [OF assms]
  by (simp add: getBook_def checkoutBook_def returnBook_def)

theorem unknown_id_not_found_witness:
  "getBookById False
     [\<lparr>col_id = ''b1'', col_title = ''T'', col_author = ''A'', col_quantity = SqlInteger 2\<rparr>]
     ''b2'' = Inl ErrLivroNaoEncontrado \<and>
   getBook no_faults ''b2''
     [\<lparr>col_id = ''b1'', col_title = ''T'', col_author = ''A'', col_quantity = SqlInteger 2\<rparr>] =
     ((StatusNotFound, JSON_message Livro_nao_encontrado),
      [\<lparr>col_id = ''b1'', col_title = ''T'', col_author = ''A'', col_quantity = SqlInteger 2\<rparr>]) \<and>
   checkoutBook no_faults (Some ''b2'')
     [\<lparr>col_id = ''b1'', col_title = ''T'', col_author = ''A'', col_quantity = SqlInteger 2\<rparr>] =
     ((StatusNotFound, JSON_message Livro_nao_encontrado),
      [\<lparr>col_id = ''b1'', col_title = ''T'', col_author = ''A'', col_quantity = SqlInteger 2\<rparr>]) \<and>
   returnBook no_faults (Some ''b2'')
     [\<lparr>col_id = ''b1'', col_title = ''T'', col_author = ''A'', col_quantity = SqlInteger 2\<rparr>] =
     ((StatusNotFound, JSON_message Livro_nao_encontrado),
      [\<lparr>col_id = ''b1'', col_title = ''T'', col_author = ''A'', col_quantity = SqlInteger 2\<rparr>])"
  using unknown_id_not_found
    [where i = "''b2''" and f = no_faults
       and tbl = "[\<lparr>col_id = ''b1'', col_title = ''T'', col_author = ''A'',
                    col_quantity = SqlInteger 2\<rparr>]"]
  by simp

text \<open>
  Claim C7 as it is written speaks of every id that no item has. No item of the empty
  table has the empty id, and checkoutBook and returnBook answer it with 400
  "ID e necessario", not with 404.
\<close>

theorem unknown_empty_id_counterexample:
  "checkoutBook no_faults (Some []) initDB =
     ((StatusBadRequest, JSON_message ID_e_necessario), initDB) \<and>
   returnBook no_faults (Some []) initDB =
     ((StatusBadRequest, JSON_message ID_e_necessario), initDB)"
  by (simp add: checkoutBook_def returnBook_def)









subsection \<open>Creating a book\<close>

lemma createBook_fresh:
  assumes "\<forall>r\<in>set tbl. col_id r \<noteq> ID b" and "\<not> query_fails f" and "\<not> exec_fails f"
  shows "createBook f (Some b) tbl =
           ((StatusCreated, JSON_book b),
            tbl @ [\<lparr>col_id = ID b, col_title = Title b, col_author = Author b,
                    col_quantity = SqlInteger (Quantity b)\<rparr>])"
proof -
  have "find (\<lambda>r. col_id r = ID b) tbl = None"
    using assms(1) by (simp add: find_id_None)
  then show ?thesis
    using assms(2,3) by (simp add: createBook_def query_row_def exec_insert_def)
qed

lemma createBook_Created:
  assumes "createBook f (Some b) tbl = ((StatusCreated, bdy), tbl')"
  shows "bdy = JSON_book b \<and> find (\<lambda>r. col_id r = ID b) tbl = None \<and>
         tbl' = tbl @ [\<lparr>col_id = ID b, col_title = Title b, col_author = Author b,
                        col_quantity = SqlInteger (Quantity b)\<rparr>]"
  using assms
  by (auto simp: createBook_def exec_insert_def Let_def split: if_splits sum.splits)

lemma createBook_not_BadRequest:
  "fst (fst (createBook f (Some b) tbl)) \<noteq> StatusBadRequest"
  by (simp add: createBook_def exec_insert_def Let_def split: sum.splits)

lemma find_append_new:
  "find P tbl = None \<Longrightarrow> P r \<Longrightarrow> find P (tbl @ [r]) = Some r"
  by (induction tbl) (auto split: if_splits)

lemma createBook_conflict:
  assumes "find (\<lambda>r. col_id r = ID b) tbl \<noteq> None" and "ID b \<noteq> []" and "\<not> query_fails f"
  shows "createBook f (Some b) tbl = ((StatusConflict, JSON_message ID_do_livro_ja_existe), tbl)"
proof -
  obtain r where r: "find (\<lambda>r. col_id r = ID b) tbl = Some r"
    using assms(1) by auto
  then have "col_id r = ID b"
    by (auto dest: find_id_Some)
  then show ?thesis
    using r assms(2,3) by (simp add: createBook_def query_row_def)
qed

lemma createBook_failure_keeps_table:
  "fst (fst (createBook f bound tbl)) \<noteq> StatusCreated \<Longrightarrow> snd (createBook f bound tbl) = tbl"
  by (auto simp: createBook_def Let_def split: option.splits sum.splits if_splits)

text \<open>
  Claim C9. When createBook answers 201 for the book \<open>b\<close>, the body is \<open>b\<close>, and on the
  table it leaves getBookById with the id of \<open>b\<close> returns \<open>b\<close> itself: the same id,
  title, author and quantity. The GET handler answers 200 with \<open>b\<close>.
\<close>

theorem createBook_then_getBookById:
  assumes "createBook f (Some b) tbl = ((StatusCreated, bdy), tbl')"
  shows "bdy = JSON_book b \<and> getBookById False tbl' (ID b) = Inr b \<and>
         getBook no_faults (ID b) tbl' = ((StatusOK, JSON_book b), tbl')"
proof -
  let ?r = "\<lparr>col_id = ID b, col_title = Title b, col_author = Author b,
             col_quantity = SqlInteger (Quantity b)\<rparr>"
  have c: "bdy = JSON_book b" "find (\<lambda>r. col_id r = ID b) tbl = None" "tbl' = tbl @ [?r]"
    using createBook_Created [OF assms] by simp_all
  have "find (\<lambda>r. col_id r = ID b) tbl' = Some ?r"
    using c(2,3) by (simp add: find_append_new)
  then have "getBookById False tbl' (ID b) = Inr b"
    by (simp add: getBookById_def query_row_def scan_book_def)
  then show ?thesis
    using c(1) by (simp add: getBook_def no_faults_def)
qed

theorem createBook_then_getBookById_witness:
  "createBook no_faults (Some \<lparr>ID = ''b1'', Title = ''T'', Author = ''A'', Quantity = 2\<rparr>) initDB =
     ((StatusCreated, JSON_book \<lparr>ID = ''b1'', Title = ''T'', Author = ''A'', Quantity = 2\<rparr>),
      [\<lparr>col_id = ''b1'', col_title = ''T'', col_author = ''A'', col_quantity = SqlInteger 2\<rparr>]) \<and>
   getBookById False
     [\<lparr>col_id = ''b1'', col_title = ''T'', col_author = ''A'', col_quantity = SqlInteger 2\<rparr>]
     ''b1'' = Inr \<lparr>ID = ''b1'', Title = ''T'', Author = ''A'', Quantity = 2\<rparr>"
  using createBook_then_getBookById
    [where f = no_faults and tbl = initDB
       and b = "\<lparr>ID = ''b1'', Title = ''T'', Author = ''A'', Quantity = 2\<rparr>"
       and bdy = "JSON_book \<lparr>ID = ''b1'', Title = ''T'', Author = ''A'', Quantity = 2\<rparr>"
       and tbl' = "[\<lparr>col_id = ''b1'', col_title = ''T'', col_author = ''A'',
                     col_quantity = SqlInteger 2\<rparr>]"]
  by (simp add: initDB_def createBook_def query_row_def exec_insert_def no_faults_def)

text \<open>
  Claim C10. Once BindJSON has filled the struct, createBook looks at no field but the
  id, and at the id only to search the table. Whatever the strings and the quantity are
  (empty, zero as a missing member leaves it, negative), the answer is never 400; and
  when no row has the id and the storage calls go through, the answer is 201 and the
  table has one more row, holding exactly the four values of the struct.
\<close>

theorem createBook_no_validation:
  "fst (fst (createBook f (Some b) tbl)) \<noteq> StatusBadRequest \<and>
   ((\<forall>r\<in>set tbl. col_id r \<noteq> ID b) \<and> \<not> query_fails f \<and> \<not> exec_fails f \<longrightarrow>
      createBook f (Some b) tbl =
        ((StatusCreated, JSON_book b),
         tbl @ [\<lparr>col_id = ID b, col_title = Title b, col_author = Author b,
                 col_quantity = SqlInteger (Quantity b)\<rparr>]))"
  using createBook_not_BadRequest createBook_fresh by blast

theorem createBook_no_validation_witness:
  "createBook no_faults (Some \<lparr>ID = [], Title = [], Author = [], Quantity = 0\<rparr>)
     [\<lparr>col_id = ''b1'', col_title = ''T'', col_author = ''A'', col_quantity = SqlInteger 2\<rparr>] =
     ((StatusCreated, JSON_book \<lparr>ID = [], Title = [], Author = [], Quantity = 0\<rparr>),
      [\<lparr>col_id = ''b1'', col_title = ''T'', col_author = ''A'', col_quantity = SqlInteger 2\<rparr>,
       \<lparr>col_id = [], col_title = [], col_author = [], col_quantity = SqlInteger 0\<rparr>]) \<and>
   createBook no_faults (Some \<lparr>ID = ''b2'', Title = ''T'', Author = ''A'', Quantity = - 3\<rparr>)
     [\<lparr>col_id = ''b1'', col_title = ''T'', col_author = ''A'', col_quantity = SqlInteger 2\<rparr>] =
     ((StatusCreated, JSON_book \<lparr>ID = ''b2'', Title = ''T'', Author = ''A'', Quantity = - 3\<rparr>),
      [\<lparr>col_id = ''b1'', col_title = ''T'', col_author = ''A'', col_quantity = SqlInteger 2\<rparr>,
       \<lparr>col_id = ''b2'', col_title = ''T'', col_author = ''A'',
        col_quantity = SqlInteger (- 3)\<rparr>])"
  using createBook_no_validation
    [where f = no_faults
       and b = "\<lparr>ID = [], Title = [], Author = [], Quantity = 0\<rparr>"
       and tbl = "[\<lparr>col_id = ''b1'', col_title = ''T'', col_author = ''A'',
                    col_quantity = SqlInteger 2\<rparr>]"]
    createBook_no_validation
    [where f = no_faults
       and b = "\<lparr>ID = ''b2'', Title = ''T'', Author = ''A'', Quantity = - 3\<rparr>"
       and tbl = "[\<lparr>col_id = ''b1'', col_title = ''T'', col_author = ''A'',
                    col_quantity = SqlInteger 2\<rparr>]"]
  by (simp add: no_faults_def)

text \<open>
  Claim C5 at the empty id. The table has a book under the empty id, and the request
  has the empty id too. The query finds the row and leaves \<^verbatim>\<open>existingBook.ID\<close> empty,
  as it was; the test \<^verbatim>\<open>existingBook.ID != ""\<close> takes that for "no such book"; the
  INSERT then breaks the PRIMARY KEY, and the answer is 500 "Erro ao adicionar livro"
  where the claim says 409. The table is unchanged. For a non-empty id the answer is
  409, by \<open>createBook_conflict\<close> above.
\<close>

theorem createBook_duplicate_empty_id:
  "createBook no_faults (Some \<lparr>ID = [], Title = ''T2'', Author = ''A2'', Quantity = 5\<rparr>)
     [\<lparr>col_id = [], col_title = ''T'', col_author = ''A'', col_quantity = SqlInteger 1\<rparr>] =
     ((StatusInternalServerError, JSON_message Erro_ao_adicionar_livro),
      [\<lparr>col_id = [], col_title = ''T'', col_author = ''A'', col_quantity = SqlInteger 1\<rparr>])"
  by (simp add: createBook_def query_row_def exec_insert_def no_faults_def)

subsection \<open>Quantities below zero\<close>

lemma unique_ids_find:
  "unique_ids tbl \<Longrightarrow> find (\<lambda>r. col_id r = i) tbl = Some r \<Longrightarrow> r' \<in> set tbl \<Longrightarrow>
   col_id r' = i \<Longrightarrow> r' = r"
  unfolding unique_ids_def
  by (induction tbl) (auto split: if_splits)

lemma col_id_update:
  "map (col_id \<circ> (\<lambda>r. if col_id r = i then r\<lparr>col_quantity := e (col_quantity r)\<rparr> else r)) tbl =
   map col_id tbl"
  by (induction tbl) auto

lemma unique_ids_update:
  "unique_ids tbl \<Longrightarrow> exec_update fails tbl e i = Inr tbl' \<Longrightarrow> unique_ids tbl'"
  by (auto simp: unique_ids_def exec_update_def col_id_update split: if_splits)

lemma quantity_not_negative_plus_one:
  "quantity_not_negative v \<Longrightarrow> quantity_not_negative (sql_plus_one v)"
  by (cases v) (auto simp: sql_plus_one_def sint_plus_one)

lemma no_negative_quantity_plus_one:
  "no_negative_quantity tbl \<Longrightarrow> exec_update fails tbl sql_plus_one i = Inr tbl' \<Longrightarrow>
   no_negative_quantity tbl'"
  by (auto simp: no_negative_quantity_def exec_update_def list_all_iff
                 quantity_not_negative_plus_one split: if_splits)

lemma no_negative_quantity_minus_one:
  assumes "unique_ids tbl" and "no_negative_quantity tbl"
    and "getBookById False tbl i = Inr b" and "0 < sint (Quantity b)"
    and "exec_update fails tbl sql_minus_one i = Inr tbl'"
  shows "no_negative_quantity tbl'"
proof -
  obtain r where r: "find (\<lambda>r. col_id r = i) tbl = Some r"
      "col_quantity r = SqlInteger (Quantity b)"
    using assms(3) by (auto simp: getBookById_Inr scan_book_Inr)
  have one: "r' = r" if "r' \<in> set tbl" "col_id r' = i" for r'
    using unique_ids_find [OF assms(1) r(1) that] .
  have "quantity_not_negative (sql_minus_one (col_quantity r))"
    using r(2) assms(4) by (simp add: sql_minus_one_def sint_minus_one)
  then show ?thesis
    using assms(2,5) one
    by (auto simp: no_negative_quantity_def exec_update_def list_all_iff split: if_splits)
qed

lemma createBook_invariants:
  assumes "unique_ids tbl" and "no_negative_quantity tbl"
    and "\<forall>b. bound = Some b \<longrightarrow> 0 \<le> sint (Quantity b)"
  shows "unique_ids (snd (createBook f bound tbl)) \<and>
         no_negative_quantity (snd (createBook f bound tbl))"
proof (cases "fst (fst (createBook f bound tbl)) = StatusCreated")
  case False
  then show ?thesis
    using assms(1,2) by (simp add: createBook_failure_keeps_table)
next
  case True
  then obtain b where b: "bound = Some b"
    by (cases bound) (auto simp: createBook_def)
  obtain bdy tbl' where res: "createBook f (Some b) tbl = ((StatusCreated, bdy), tbl')"
    using True b by (metis prod.collapse)
  have c: "find (\<lambda>r. col_id r = ID b) tbl = None"
      "tbl' = tbl @ [\<lparr>col_id = ID b, col_title = Title b, col_author = Author b,
                       col_quantity = SqlInteger (Quantity b)\<rparr>]"
    using createBook_Created [OF res] by simp_all
  have "ID b \<notin> col_id ` set tbl"
    using c(1) by (auto simp: find_id_None)
  then have "unique_ids tbl'"
    using assms(1) c(2) by (simp add: unique_ids_def)
  moreover have "no_negative_quantity tbl'"
    using assms(2,3) b c(2) by (simp add: no_negative_quantity_def)
  ultimately show ?thesis
    using res b by simp
qed

lemma checkoutBook_invariants:
  assumes "unique_ids tbl" and "no_negative_quantity tbl"
  shows "unique_ids (snd (checkoutBook f bound tbl)) \<and>
         no_negative_quantity (snd (checkoutBook f bound tbl))"
proof (cases "fst (fst (checkoutBook f bound tbl)) = StatusOK")
  case False
  then have "snd (checkoutBook f bound tbl) = tbl"
    by (auto simp: checkoutBook_def split: option.splits sum.splits if_splits)
  then show ?thesis
    using assms by simp
next
  case True
  then obtain bdy tbl' where res: "checkoutBook f bound tbl = ((StatusOK, bdy), tbl')"
    by (metis prod.collapse)
  then obtain i b where ok: "getBookById False tbl i = Inr b" "0 < sint (Quantity b)"
      "exec_update False tbl sql_minus_one i = Inr tbl'"
    using checkoutBook_OK by blast
  show ?thesis
    using unique_ids_update [OF assms(1) ok(3)]
      no_negative_quantity_minus_one [OF assms ok] res by simp
qed

lemma returnBook_invariants:
  assumes "unique_ids tbl" and "no_negative_quantity tbl"
  shows "unique_ids (snd (returnBook f bound tbl)) \<and>
         no_negative_quantity (snd (returnBook f bound tbl))"
proof (cases "fst (fst (returnBook f bound tbl)) = StatusOK")
  case False
  then have "snd (returnBook f bound tbl) = tbl"
    by (auto simp: returnBook_def split: option.splits sum.splits if_splits)
  then show ?thesis
    using assms by simp
next
  case True
  then obtain bdy tbl' where res: "returnBook f bound tbl = ((StatusOK, bdy), tbl')"
    by (metis prod.collapse)
  then obtain i where ok: "exec_update False tbl sql_plus_one i = Inr tbl'"
    using returnBook_OK by blast
  show ?thesis
    using unique_ids_update [OF assms(1) ok]
      no_negative_quantity_plus_one [OF assms(2) ok] res by simp
qed

lemma router_invariants:
  assumes "unique_ids tbl" and "no_negative_quantity tbl"
    and "\<forall>b. rq = POST_books (Some b) \<longrightarrow> 0 \<le> sint (Quantity b)"
  shows "unique_ids (snd (router f rq tbl)) \<and> no_negative_quantity (snd (router f rq tbl))"
proof (cases rq)
  case (POST_books bound)
  then show ?thesis
    using createBook_invariants [OF assms(1,2), of bound f] assms(3) by simp
next
  case GET_books
  then show ?thesis
    using assms(1,2) by (simp add: getBooks_def split: sum.splits)
next
  case (GET_books_id i)
  then show ?thesis
    using assms(1,2) by (simp add: getBook_def split: sum.splits)
next
  case (PATCH_books_checkout bound)
  then show ?thesis
    using checkoutBook_invariants [OF assms(1,2)] by simp
next
  case (PATCH_books_return bound)
  then show ?thesis
    using returnBook_invariants [OF assms(1,2)] by simp
qed

lemma run_invariants:
  "unique_ids tbl \<Longrightarrow> no_negative_quantity tbl \<Longrightarrow>
   \<forall>(f, rq)\<in>set reqs. \<forall>b. rq = POST_books (Some b) \<longrightarrow> 0 \<le> sint (Quantity b) \<Longrightarrow>
   unique_ids (run reqs tbl) \<and> no_negative_quantity (run reqs tbl)"
proof (induction reqs arbitrary: tbl)
  case Nil
  then show ?case by simp
next
  case (Cons a reqs)
  obtain f rq where a: "a = (f, rq)"
    by (cases a)
  have step: "unique_ids (snd (router f rq tbl)) \<and> no_negative_quantity (snd (router f rq tbl))"
    using router_invariants [OF Cons.prems(1,2), of rq f] Cons.prems(3) a by simp
  show ?case
    using Cons.IH [of "snd (router f rq tbl)"] step Cons.prems(3) a by simp
qed

lemma checkoutBook_refuses:
  assumes "getBookById False tbl i = Inr b" and "sint (Quantity b) \<le> 0"
  shows "fst (fst (checkoutBook f (Some i) tbl)) \<noteq> StatusOK \<and>
         snd (checkoutBook f (Some i) tbl) = tbl"
proof (cases "query_fails f")
  case True
  then show ?thesis
    by (simp add: checkoutBook_def getBookById_def query_row_def)
next
  case False
  then show ?thesis
    using assms by (simp add: checkoutBook_def)
qed

text \<open>
  Claim C1, as amended. Start from the empty table and serve any requests one after the
  other, where every book that a POST brings has a quantity of at least 0. Then no row
  of the table has a quantity below 0. And when the book that getBookById finds has a
  quantity of 0 or less, checkoutBook does not answer 200 and leaves the table as it is.
\<close>

theorem quantity_never_negative:
  assumes "\<forall>(f, rq)\<in>set reqs. \<forall>b. rq = POST_books (Some b) \<longrightarrow> 0 \<le> sint (Quantity b)"
  shows "no_negative_quantity (run reqs initDB) \<and>
         (\<forall>f i b. getBookById False (run reqs initDB) i = Inr b \<and> sint (Quantity b) \<le> 0 \<longrightarrow>
            fst (fst (checkoutBook f (Some i) (run reqs initDB))) \<noteq> StatusOK \<and>
            snd (checkoutBook f (Some i) (run reqs initDB)) = run reqs initDB)"
proof -
  have "unique_ids initDB" "no_negative_quantity initDB"
    by (simp_all add: unique_ids_def no_negative_quantity_def initDB_def)
  then have "no_negative_quantity (run reqs initDB)"
    using run_invariants assms by blast
  then show ?thesis
    using checkoutBook_refuses by blast
qed

theorem quantity_never_negative_witness:
  "run [(no_faults, POST_books (Some \<lparr>ID = ''b1'', Title = ''T'', Author = ''A'', Quantity = 2\<rparr>)),
        (no_faults, PATCH_books_checkout (Some ''b1'')),
        (no_faults, PATCH_books_checkout (Some ''b1'')),
        (no_faults, PATCH_books_checkout (Some ''b1'')),
        (no_faults, PATCH_books_return (Some ''b1''))] initDB =
     [\<lparr>col_id = ''b1'', col_title = ''T'', col_author = ''A'', col_quantity = SqlInteger 1\<rparr>] \<and>
   no_negative_quantity
     (run [(no_faults, POST_books (Some \<lparr>ID = ''b1'', Title = ''T'', Author = ''A'', Quantity = 2\<rparr>)),
           (no_faults, PATCH_books_checkout (Some ''b1'')),
           (no_faults, PATCH_books_checkout (Some ''b1'')),
           (no_faults, PATCH_books_checkout (Some ''b1'')),
           (no_faults, PATCH_books_return (Some ''b1''))] initDB)"
  using quantity_never_negative
    [where reqs =
       "[(no_faults, POST_books (Some \<lparr>ID = ''b1'', Title = ''T'', Author = ''A'', Quantity = 2\<rparr>)),
         (no_faults, PATCH_books_checkout (Some ''b1'')),
         (no_faults, PATCH_books_checkout (Some ''b1'')),
         (no_faults, PATCH_books_checkout (Some ''b1'')),
         (no_faults, PATCH_books_return (Some ''b1''))]"]
  by (simp add: initDB_def createBook_def checkoutBook_def returnBook_def getBookById_def
        query_row_def scan_book_def exec_insert_def exec_update_def sql_minus_one_def
        sql_plus_one_def no_faults_def no_negative_quantity_def)

text \<open>
  Claim C1 as it is written names createBook among the operations that never store a
  negative quantity. createBook stores the quantity it is given: after one POST with
  quantity -1 the table holds a row with quantity -1.
\<close>

theorem createBook_negative_quantity_counterexample:
  "run [(no_faults,
         POST_books (Some \<lparr>ID = ''b1'', Title = ''T'', Author = ''A'', Quantity = - 1\<rparr>))] initDB =
     [\<lparr>col_id = ''b1'', col_title = ''T'', col_author = ''A'',
       col_quantity = SqlInteger (- 1)\<rparr>] \<and>
   sint (- 1 :: 64 word) = - 1 \<and>
   \<not> no_negative_quantity
       (run [(no_faults,
              POST_books (Some \<lparr>ID = ''b1'', Title = ''T'', Author = ''A'', Quantity = - 1\<rparr>))]
          initDB)"
  by (simp add: initDB_def createBook_def query_row_def exec_insert_def no_faults_def
        no_negative_quantity_def)

end
